theory Spec2Isabelle
  imports Main "HOL-Library.AList"
begin

section \<open>Text primitives of the Python runtime\<close>

text \<open>
  Python strings are modelled as \<^typ>\<open>string\<close>, one \<^typ>\<open>char\<close> per code point, so the
  model covers texts whose code points lie below 256.

  \<open>is_space\<close> is the character class shared by \<open>str.strip()\<close> and by \<open>\s\<close> of the
  \<open>re\<close> module on text patterns, restricted to that range.
\<close>

definition is_space :: "char \<Rightarrow> bool" where
  "is_space c \<longleftrightarrow>
     c \<in> set [CHR 0x09, CHR 0x0A, CHR 0x0B, CHR 0x0C, CHR 0x0D,
              CHR 0x1C, CHR 0x1D, CHR 0x1E, CHR 0x1F, CHR 0x20, CHR 0x85, CHR 0xA0]"

text \<open>\<open>s.strip()\<close>\<close>

definition strip :: "string \<Rightarrow> string" where
  "strip s = rev (dropWhile is_space (rev (dropWhile is_space s)))"

text \<open>\<open>s.startswith(p)\<close>\<close>

definition starts_with :: "string \<Rightarrow> string \<Rightarrow> bool" where
  "starts_with p s \<longleftrightarrow> take (length p) s = p"

text \<open>\<open>p in s\<close>\<close>

fun contains :: "string \<Rightarrow> string \<Rightarrow> bool" where
  "contains p [] = (p = [])"
| "contains p (c # cs) = (starts_with p (c # cs) \<or> contains p cs)"

text \<open>
  \<open>s.replace(old, new)\<close>: every occurrence of \<open>old\<close>, found from the left without
  overlap, becomes \<open>new\<close>. For an empty \<open>old\<close> Python puts \<open>new\<close> around every character.
\<close>

function replace :: "string \<Rightarrow> string \<Rightarrow> string \<Rightarrow> string" where
  "replace old new s =
     (if old = [] then new @ concat (map (\<lambda>c. c # new) s)
      else if starts_with old s then new @ replace old new (drop (length old) s)
      else (case s of [] \<Rightarrow> [] | c # cs \<Rightarrow> c # replace old new cs))"
  by pat_completeness auto
termination
proof (relation "measure (\<lambda>(old, new, s). length s)")
  fix old new s :: string
  assume "old \<noteq> []" and "starts_with old s"
  then have "0 < length old" and "length (take (length old) s) = length old"
    by (simp_all add: starts_with_def)
  then have "0 < length old" and "length old \<le> length s"
    by simp_all
  then have "length s - length old < length s"
    by arith
  then show "((old, new, drop (length old) s), (old, new, s))
      \<in> measure (\<lambda>(old, new, s). length s)"
    by simp
qed auto

declare replace.simps [simp del]

text \<open>
  Letter case as \<open>re.IGNORECASE\<close> sees it for a pattern of ASCII letters: below code
  point 256 only the two ASCII forms of a letter match it.
\<close>

definition ascii_lower :: "char \<Rightarrow> char" where
  "ascii_lower c =
     (case map_of (zip ''ABCDEFGHIJKLMNOPQRSTUVWXYZ'' ''abcdefghijklmnopqrstuvwxyz'') c of
        Some l \<Rightarrow> l
      | None \<Rightarrow> c)"

section \<open>The two regular expressions of the response parser\<close>

text \<open>
  \<open>re.search(r'\[USER_DATA_JSON\]\s*(\{.*?\})', text, re.DOTALL)\<close>.

  \<open>match_profile_block\<close> is the match anchored at the head of its argument: the literal
  marker, the longest run of white space (giving some back never helps, the next
  character has to be the brace), an opening brace, and the lazy \<open>.*?\<close>, which stops
  at the first closing brace. It returns group 0 and group 1.
  \<open>re_search_profile_block\<close> tries the start positions from left to right.
\<close>

definition match_profile_block :: "string \<Rightarrow> (string \<times> string) option" where
  "match_profile_block s =
     (if starts_with ''[USER_DATA_JSON]'' s then
        (let rest = drop 16 s;
             ws = takeWhile is_space rest
         in case dropWhile is_space rest of
              [] \<Rightarrow> None
            | c # r \<Rightarrow>
                if c = CHR ''{'' \<and> CHR ''}'' \<in> set r then
                  (let g1 = CHR ''{'' # takeWhile (\<lambda>c. c \<noteq> CHR ''}'') r @ ''}''
                   in Some (''[USER_DATA_JSON]'' @ ws @ g1, g1))
                else None)
      else None)"

fun re_search_profile_block :: "string \<Rightarrow> (string \<times> string) option" where
  "re_search_profile_block [] = match_profile_block []"
| "re_search_profile_block (c # cs) =
     (case match_profile_block (c # cs) of
        Some m \<Rightarrow> Some m
      | None \<Rightarrow> re_search_profile_block cs)"

text \<open>
  \<open>re.search(r'consult a doctor.*', text, re.IGNORECASE | re.DOTALL)\<close>: the match
  starts at the first occurrence of the phrase in any letter case and runs to the end
  of the text; the result is group 0.
\<close>

definition match_disclaimer :: "string \<Rightarrow> bool" where
  "match_disclaimer s \<longleftrightarrow> map ascii_lower (take 16 s) = ''consult a doctor''"

fun re_search_disclaimer :: "string \<Rightarrow> string option" where
  "re_search_disclaimer [] = None"
| "re_search_disclaimer (c # cs) =
     (if match_disclaimer (c # cs) then Some (c # cs) else re_search_disclaimer cs)"

section \<open>Extraction of the plan text\<close>

text \<open>
  \<open>FouserBot._extract_plan_text\<close>. The string operations of its body raise nothing on
  a text, so its \<open>except\<close> branch is never entered and has no counterpart here.
\<close>

definition extract_plan_text :: "string \<Rightarrow> string" where
  "extract_plan_text text =
     (let plan_text = strip (replace ''[END_OF_PLAN]'' [] text);
          plan_text = (case re_search_profile_block plan_text of
                         Some (g0, g1) \<Rightarrow> strip (replace g0 [] plan_text)
                       | None \<Rightarrow> plan_text);
          plan_text = (case re_search_disclaimer plan_text of
                         Some g0 \<Rightarrow> strip (replace g0 [] plan_text)
                       | None \<Rightarrow> plan_text)
      in if plan_text = [] then ''No plan was generated.'' else strip plan_text)"

section \<open>JSON values and \<open>json.loads\<close>\<close>

text \<open>
  The values \<open>json.loads\<close> builds. A dict is an association list in insertion order
  with distinct keys. An integer literal becomes \<open>JInt\<close>; a literal with a fraction or
  an exponent, and \<open>NaN\<close>, \<open>Infinity\<close>, \<open>-Infinity\<close>, become \<open>JFloat\<close> of the
  literal's text, since the floating-point value itself is not modelled.
\<close>

datatype json =
    JNull
  | JBool bool
  | JInt int
  | JFloat string
  | JString string
  | JArray "json list"
  | JObject "(string \<times> json) list"

type_synonym dict = "(string \<times> json) list"

text \<open>The white space of the JSON grammar: space, tab, line feed, carriage return.\<close>

definition json_ws :: "char \<Rightarrow> bool" where
  "json_ws c \<longleftrightarrow> c \<in> set [CHR 0x20, CHR 0x09, CHR 0x0A, CHR 0x0D]"

definition skip_ws :: "string \<Rightarrow> string" where
  "skip_ws s = dropWhile json_ws s"

definition is_digit :: "char \<Rightarrow> bool" where
  "is_digit c \<longleftrightarrow> c \<in> set ''0123456789''"

definition digit_val :: "char \<Rightarrow> nat" where
  "digit_val c =
     (case map_of (zip ''0123456789'' [0, 1, 2, 3, 4, 5, 6, 7, 8, 9]) c of
        Some n \<Rightarrow> n
      | None \<Rightarrow> 0)"

definition digits_val :: "string \<Rightarrow> nat" where
  "digits_val ds = foldl (\<lambda>n d. 10 * n + digit_val d) 0 ds"

definition hex_val :: "char \<Rightarrow> nat option" where
  "hex_val c =
     map_of (zip ''0123456789abcdefABCDEF''
       [0, 1, 2, 3, 4, 5, 6, 7, 8, 9, 10, 11, 12, 13, 14, 15, 10, 11, 12, 13, 14, 15]) c"

text \<open>
  The four hexadecimal digits of a \<open>\uXXXX\<close> escape. An escape that names a code point
  of 256 or more lies outside the alphabet of this model and is declined.
\<close>

definition decode_u4 :: "string \<Rightarrow> char option" where
  "decode_u4 s =
     (case map hex_val s of
        [Some a, Some b, Some c, Some d] \<Rightarrow>
          if a = 0 \<and> b = 0 then Some (char_of (16 * c + d)) else None
      | _ \<Rightarrow> None)"

definition unescape :: "char \<Rightarrow> char option" where
  "unescape e =
     map_of [(CHR 0x22, CHR 0x22), (CHR 0x5C, CHR 0x5C), (CHR ''/'', CHR ''/''),
             (CHR ''b'', CHR 0x08), (CHR ''f'', CHR 0x0C), (CHR ''n'', CHR 0x0A),
             (CHR ''r'', CHR 0x0D), (CHR ''t'', CHR 0x09)] e"

text \<open>Control characters, which strict decoding refuses inside a string.\<close>

definition is_control :: "char \<Rightarrow> bool" where
  "is_control c \<longleftrightarrow> (of_char c :: nat) < 32"

text \<open>
  \<open>scanstring\<close>, entered after the opening quote: the decoded string and the text
  after the closing quote, or \<open>None\<close> where the decoder raises.
\<close>

fun scanstring :: "string \<Rightarrow> (string \<times> string) option" where
  "scanstring [] = None"
| "scanstring (c # cs) =
     (if c = CHR 0x22 then Some ([], cs)
      else if c = CHR 0x5C then
        (case cs of
           [] \<Rightarrow> None
         | e # r \<Rightarrow>
             if e = CHR ''u'' then
               (case decode_u4 (take 4 r) of
                  None \<Rightarrow> None
                | Some ch \<Rightarrow>
                    (case scanstring (drop 4 r) of
                       None \<Rightarrow> None
                     | Some (str, rest) \<Rightarrow> Some (ch # str, rest)))
             else
               (case unescape e of
                  None \<Rightarrow> None
                | Some ch \<Rightarrow>
                    (case scanstring r of
                       None \<Rightarrow> None
                     | Some (str, rest) \<Rightarrow> Some (ch # str, rest))))
      else if is_control c then None
      else
        (case scanstring cs of
           None \<Rightarrow> None
         | Some (str, rest) \<Rightarrow> Some (c # str, rest)))"

declare scanstring.simps(2) [simp del]

text \<open>
  The number pattern \<open>(-?(?:0|[1-9][0-9]*))(\.[0-9]+)?([eE][-+]?[0-9]+)?\<close>, matched at
  the head of the text: the integer part, then a fraction and an exponent where they are
  complete.
\<close>

definition match_number :: "string \<Rightarrow> (json \<times> string) option" where
  "match_number s =
     (let neg = (s \<noteq> [] \<and> hd s = CHR ''-'');
          r = (if neg then tl s else s)
      in case r of
           [] \<Rightarrow> None
         | d # r' \<Rightarrow>
             if \<not> is_digit d then None
             else
               (let ds = (if d = CHR ''0'' then [d] else d # takeWhile is_digit r');
                    r1 = drop (length ds) r;
                    fd = (case r1 of
                            [] \<Rightarrow> []
                          | p # f \<Rightarrow> if p = CHR ''.'' then takeWhile is_digit f else []);
                    frac = (if fd = [] then [] else CHR ''.'' # fd);
                    r2 = drop (length frac) r1;
                    ex = (case r2 of
                            [] \<Rightarrow> []
                          | e # x \<Rightarrow>
                              if e = CHR ''e'' \<or> e = CHR ''E'' then
                                (let sg = (case x of
                                             [] \<Rightarrow> []
                                           | g # _ \<Rightarrow>
                                               if g = CHR ''+'' \<or> g = CHR ''-'' then [g] else []);
                                     ed = takeWhile is_digit (drop (length sg) x)
                                 in if ed = [] then [] else e # sg @ ed)
                              else []);
                    r3 = drop (length ex) r2
                in if frac = [] \<and> ex = []
                   then Some (JInt (if neg then - int (digits_val ds) else int (digits_val ds)), r3)
                   else Some (JFloat ((if neg then ''-'' else []) @ ds @ frac @ ex), r3)))"

text \<open>
  What the scanner tries on a character that opens neither a string, an object nor an
  array, in its order: \<open>null\<close>, \<open>true\<close>, \<open>false\<close>, a number, \<open>NaN\<close>, \<open>Infinity\<close>,
  \<open>-Infinity\<close>.
\<close>

definition scan_atom :: "string \<Rightarrow> (json \<times> string) option" where
  "scan_atom s =
     (if starts_with ''null'' s then Some (JNull, drop 4 s)
      else if starts_with ''true'' s then Some (JBool True, drop 4 s)
      else if starts_with ''false'' s then Some (JBool False, drop 5 s)
      else case match_number s of
             Some m \<Rightarrow> Some m
           | None \<Rightarrow>
               if starts_with ''NaN'' s then Some (JFloat ''NaN'', drop 3 s)
               else if starts_with ''Infinity'' s then Some (JFloat ''Infinity'', drop 8 s)
               else if starts_with ''-Infinity'' s then Some (JFloat ''-Infinity'', drop 9 s)
               else None)"

text \<open>
  The scanner. \<open>scan_once\<close> reads one value at the head of the text. \<open>scan_object\<close> is
  entered after the opening quote of a key with the pairs read so far, \<open>scan_array\<close>
  at the head of an element with the elements read so far. A later pair with a key
  already present replaces its value, as \<open>dict(pairs)\<close> does.

  Each value read leaves a shorter text; the tests \<open>length r' < length s\<close> state this
  where the recursion continues on a remainder that a recursive call returned.
\<close>

function scan_once :: "string \<Rightarrow> (json \<times> string) option"
  and scan_object :: "dict \<Rightarrow> string \<Rightarrow> (dict \<times> string) option"
  and scan_array :: "json list \<Rightarrow> string \<Rightarrow> (json list \<times> string) option"
where
  "scan_once s =
     (case s of
        [] \<Rightarrow> None
      | c # cs \<Rightarrow>
          if c = CHR 0x22 then
            (case scanstring cs of
               None \<Rightarrow> None
             | Some (str, r) \<Rightarrow> Some (JString str, r))
          else if c = CHR ''{'' then
            (case skip_ws cs of
               [] \<Rightarrow> None
             | k # r \<Rightarrow>
                 if k = CHR ''}'' then Some (JObject [], r)
                 else if k = CHR 0x22 \<and> length r < length s then
                   (case scan_object [] r of
                      None \<Rightarrow> None
                    | Some (pairs, r') \<Rightarrow> Some (JObject pairs, r'))
                 else None)
          else if c = CHR ''['' then
            (case skip_ws cs of
               [] \<Rightarrow> None
             | k # r \<Rightarrow>
                 if k = CHR '']'' then Some (JArray [], r)
                 else if length (k # r) < length s then
                   (case scan_array [] (k # r) of
                      None \<Rightarrow> None
                    | Some (vs, r') \<Rightarrow> Some (JArray vs, r'))
                 else None)
          else scan_atom s)"
| "scan_object pairs s =
     (case scanstring s of
        None \<Rightarrow> None
      | Some (key, r) \<Rightarrow>
          (case skip_ws r of
             [] \<Rightarrow> None
           | colon # r1 \<Rightarrow>
               if colon = CHR '':'' \<and> length (skip_ws r1) \<le> length s then
                 (case scan_once (skip_ws r1) of
                    None \<Rightarrow> None
                  | Some (v, r2) \<Rightarrow>
                      (case skip_ws r2 of
                         [] \<Rightarrow> None
                       | d # r3 \<Rightarrow>
                           if d = CHR ''}'' then Some (AList.update key v pairs, r3)
                           else if d = CHR '','' then
                             (case skip_ws r3 of
                                [] \<Rightarrow> None
                              | q # r4 \<Rightarrow>
                                  if q = CHR 0x22 \<and> length r4 < length s
                                  then scan_object (AList.update key v pairs) r4
                                  else None)
                           else None))
               else None))"
| "scan_array vs s =
     (case scan_once s of
        None \<Rightarrow> None
      | Some (v, r) \<Rightarrow>
          (case skip_ws r of
             [] \<Rightarrow> None
           | d # r1 \<Rightarrow>
               if d = CHR '']'' then Some (vs @ [v], r1)
               else if d = CHR '','' \<and> length (skip_ws r1) < length s
               then scan_array (vs @ [v]) (skip_ws r1)
               else None))"
  by pat_completeness auto
termination
  by (relation "measure (\<lambda>x. case x of
         Inl s \<Rightarrow> 2 * length s
       | Inr (Inl (pairs, s)) \<Rightarrow> 2 * length s + 1
       | Inr (Inr (vs, s)) \<Rightarrow> 2 * length s + 1)") auto

declare scan_once.simps [simp del] scan_object.simps [simp del] scan_array.simps [simp del]

text \<open>
  \<open>json.loads\<close>: leading white space, one value, trailing white space, and nothing more;
  \<open>None\<close> where it raises \<open>JSONDecodeError\<close>.
\<close>

definition json_loads :: "string \<Rightarrow> json option" where
  "json_loads s =
     (case scan_once (skip_ws s) of
        None \<Rightarrow> None
      | Some (v, r) \<Rightarrow> if skip_ws r = [] then Some v else None)"

section \<open>Extraction of the profile block\<close>

text \<open>
  \<open>FouserBot._extract_profile_json\<close>. Group 1 starts with a brace, so what
  \<open>json.loads\<close> returns for it is a dict whenever it returns.
\<close>

definition extract_profile_json :: "string \<Rightarrow> dict option" where
  "extract_profile_json text =
     (case re_search_profile_block text of
        None \<Rightarrow> None
      | Some (g0, g1) \<Rightarrow>
          (case json_loads g1 of
             Some (JObject d) \<Rightarrow> Some d
           | _ \<Rightarrow> None))"

section \<open>The remote store\<close>

text \<open>
  The Supabase client reaches three tables. A row of \<open>users\<close> is a dict with a
  \<open>user_id\<close> column, its primary key. A row of \<open>plan_history\<close> and of
  \<open>conversation_history\<close> has the columns the program writes; columns that the
  database fills in by itself (a row id, a creation time) are left out. \<open>start_date\<close>
  and \<open>end_date\<close> hold the ISO text of a clock reading and are compared as points in
  time, which is what an integer stands for here.

  Every \<open>.execute()\<close> is a request that may raise. \<open>requests\<close> counts the requests
  made so far; the parameter \<open>raises\<close> of the operations below says, for each request
  number, whether that request raises instead of being carried out.
\<close>

type_synonym timestamp = int

record plan_record =
  user_id :: int
  plan_text :: string
  profile_json :: dict
  start_date :: timestamp
  end_date :: "timestamp option"

record turn =
  turn_user_id :: int
  sender :: string
  message_text :: string

record db =
  users :: "dict list"
  plan_history :: "plan_record list"
  conversation_history :: "turn list"
  requests :: nat

definition execute :: "(nat \<Rightarrow> bool) \<Rightarrow> db \<Rightarrow> bool \<times> db" where
  "execute raises d = (\<not> raises (requests d), d\<lparr>requests := Suc (requests d)\<rparr>)"

text \<open>\<open>table('users').select('*').eq('user_id', user_id)\<close>\<close>

definition select_user :: "int \<Rightarrow> dict list \<Rightarrow> dict list" where
  "select_user uid rows = filter (\<lambda>row. map_of row ''user_id'' = Some (JInt uid)) rows"

text \<open>
  \<open>table('users').upsert(row)\<close>: an insert that, on a row with the same primary key,
  updates the columns the new row gives.
\<close>

definition merge_row :: "dict \<Rightarrow> dict \<Rightarrow> dict" where
  "merge_row new old = fold (\<lambda>(k, v). AList.update k v) new old"

definition upsert_user :: "dict \<Rightarrow> dict list \<Rightarrow> dict list" where
  "upsert_user row rows =
     (if list_ex (\<lambda>r. map_of r ''user_id'' = map_of row ''user_id'') rows
      then map (\<lambda>r. if map_of r ''user_id'' = map_of row ''user_id'' then merge_row row r else r) rows
      else rows @ [row])"

text \<open>The filter \<open>.eq('user_id', user_id).is_('end_date', None)\<close> on \<open>plan_history\<close>.\<close>

definition is_active :: "int \<Rightarrow> plan_record \<Rightarrow> bool" where
  "is_active uid r \<longleftrightarrow> user_id r = uid \<and> end_date r = None"

text \<open>\<open>.update({'end_date': now_iso}).eq('user_id', user_id).is_('end_date', None)\<close>\<close>

definition close_active :: "int \<Rightarrow> timestamp \<Rightarrow> plan_record list \<Rightarrow> plan_record list" where
  "close_active uid now_iso rows =
     map (\<lambda>r. if is_active uid r then r\<lparr>end_date := Some now_iso\<rparr> else r) rows"

text \<open>
  \<open>.select('plan_text').eq('user_id', user_id).is_('end_date', None)
   .order('start_date', desc=True).limit(1)\<close>
\<close>

definition select_active_plan :: "int \<Rightarrow> plan_record list \<Rightarrow> plan_record list" where
  "select_active_plan uid rows =
     take 1 (sort_key (\<lambda>r. - start_date r) (filter (is_active uid) rows))"

section \<open>The bot\<close>

text \<open>
  What the model is sent: the system note for a new user, the system note for a
  returning user (the stored profile, the last plan, the name to greet, the user's
  message), or the user's message alone. The note is kept as its parts; its wording is
  not rendered. A chat session is the list of what it has been sent.
\<close>

datatype prompt =
    New_user_note string
  | Returning_user_note dict string json string
  | Message string

type_synonym chat_session = "prompt list"

text \<open>
  The state the handlers work on: whether \<open>self.model\<close> is set, \<open>self.supabase\<close>
  (\<open>None\<close>, or the client, given as the state of the store it reaches), the
  \<open>context.user_data\<close> dict of every user, and the replies sent, each with the user it
  went to. Sending a reply is taken not to fail, and the logger's output is not modelled.
\<close>

record world =
  model :: bool
  supabase :: "db option"
  user_data :: "int \<Rightarrow> (string \<times> chat_session) list"
  sent :: "(int \<times> string) list"

definition reply_text :: "int \<Rightarrow> string \<Rightarrow> world \<Rightarrow> world" where
  "reply_text uid msg w = w\<lparr>sent := sent w @ [(uid, msg)]\<rparr>"

text \<open>\<open>FouserBot._load_profile\<close>: the result and the store after its requests.\<close>

definition load_profile ::
  "(nat \<Rightarrow> bool) \<Rightarrow> int \<Rightarrow> db option \<Rightarrow> (dict \<times> string) option \<times> db option" where
  "load_profile raises uid sb =
     (case sb of
        None \<Rightarrow> (None, None)
      | Some d \<Rightarrow>
          (let (ok1, d1) = execute raises d
           in if \<not> ok1 then (None, Some d1)
              else case select_user uid (users d1) of
                     [] \<Rightarrow> (None, Some d1)
                   | profile # _ \<Rightarrow>
                       (let (ok2, d2) = execute raises d1
                        in if \<not> ok2 then (None, Some d2)
                           else
                             (let last_plan =
                                    (case select_active_plan uid (plan_history d2) of
                                       [] \<Rightarrow> ''No previous plan found.''
                                     | r # _ \<Rightarrow> plan_text r)
                              in (Some (profile, last_plan), Some d2)))))"

text \<open>\<open>FouserBot._log_conversation\<close>\<close>

definition log_conversation ::
  "(nat \<Rightarrow> bool) \<Rightarrow> int \<Rightarrow> string \<Rightarrow> string \<Rightarrow> db option \<Rightarrow> db option" where
  "log_conversation raises uid who message sb =
     (case sb of
        None \<Rightarrow> None
      | Some d \<Rightarrow>
          (let (ok, d1) = execute raises d
           in if \<not> ok then Some d1
              else Some (d1\<lparr>conversation_history := conversation_history d1 @
                     [\<lparr>turn_user_id = uid, sender = who, message_text = message\<rparr>]\<rparr>)))"

text \<open>
  \<open>FouserBot.save_new_plan_and_profile\<close>, with the clock reading \<open>now_iso\<close> it takes.
  \<open>profile.copy()\<close> gives a dict of its own, so setting \<open>user_id\<close> in the copy leaves
  \<open>profile\<close> as it was for the plan record built afterwards. A request that raises
  ends the function with the store as the earlier requests left it.
\<close>

definition save_new_plan_and_profile ::
  "(nat \<Rightarrow> bool) \<Rightarrow> timestamp \<Rightarrow> int \<Rightarrow> dict \<Rightarrow> string \<Rightarrow> db option \<Rightarrow> db option" where
  "save_new_plan_and_profile raises now_iso uid profile plan sb =
     (case sb of
        None \<Rightarrow> None
      | Some d \<Rightarrow>
          if profile = [] then Some d
          else
            (let profile_data_to_save = AList.update ''user_id'' (JInt uid) profile;
                 (ok1, d1) = execute raises d
             in if \<not> ok1 then Some d1
                else
                  (let (ok2, d2) =
                         execute raises (d1\<lparr>users := upsert_user profile_data_to_save (users d1)\<rparr>)
                   in if \<not> ok2 then Some d2
                      else
                        (let (ok3, d3) =
                               execute raises
                                 (d2\<lparr>plan_history := close_active uid now_iso (plan_history d2)\<rparr>)
                         in if \<not> ok3 then Some d3
                            else Some (d3\<lparr>plan_history := plan_history d3 @
                                   [\<lparr>user_id = uid, plan_text = plan, profile_json = profile,
                                     start_date = now_iso, end_date = None\<rparr>]\<rparr>)))))"

text \<open>
  \<open>FouserBot.main_chat_handler\<close>, in the two parts of its \<open>try\<close> block.

  \<open>send_to_model\<close> is the part up to the call of the model: it looks the session up in
  the user's \<open>user_data\<close>; without one it starts a session, stores it, loads the
  profile and builds the system note; with one it passes the message on. It returns
  the state with what was sent recorded in the session.
\<close>

definition send_to_model :: "(nat \<Rightarrow> bool) \<Rightarrow> int \<Rightarrow> string \<Rightarrow> world \<Rightarrow> world" where
  "send_to_model raises uid user_message w =
     (case map_of (user_data w uid) ''chat_session'' of
        None \<Rightarrow>
          (let (loaded, sb) = load_profile raises uid (supabase w);
               initial_prompt =
                 (case loaded of
                    Some (profile, last_plan) \<Rightarrow>
                      Returning_user_note profile last_plan
                        (case map_of profile ''name'' of
                           Some name \<Rightarrow> name
                         | None \<Rightarrow> JString ''friend'')
                        user_message
                  | None \<Rightarrow> New_user_note user_message)
           in w\<lparr>supabase := sb,
                user_data := (user_data w)
                  (uid := AList.update ''chat_session'' [initial_prompt] (user_data w uid))\<rparr>)
      | Some chat_session \<Rightarrow>
          w\<lparr>user_data := (user_data w)
              (uid := AList.update ''chat_session'' (chat_session @ [Message user_message])
                        (user_data w uid))\<rparr>)"

text \<open>
  \<open>process_reply\<close> is the part after the model has answered with \<open>ai_message\<close>: the
  turn is logged, and the completion marker decides between the plan branch and the
  plain reply. \<open>not updated_profile_json\<close> holds for \<open>None\<close> and for the empty dict.
\<close>

definition process_reply ::
  "(nat \<Rightarrow> bool) \<Rightarrow> timestamp \<Rightarrow> int \<Rightarrow> string \<Rightarrow> world \<Rightarrow> world" where
  "process_reply raises now_iso uid ai_message w =
     (let w1 = w\<lparr>supabase := log_conversation raises uid ''ai'' ai_message (supabase w)\<rparr>
      in if contains ''[END_OF_PLAN]'' ai_message then
           (let updated_profile_json = extract_profile_json ai_message
            in case updated_profile_json of
                 None \<Rightarrow> reply_text uid (strip (replace ''[END_OF_PLAN]'' [] ai_message)) w1
               | Some profile \<Rightarrow>
                   if profile = [] then
                     reply_text uid (strip (replace ''[END_OF_PLAN]'' [] ai_message)) w1
                   else
                     (let plan = extract_plan_text ai_message;
                          w2 = w1\<lparr>supabase :=
                                 save_new_plan_and_profile raises now_iso uid profile plan
                                   (supabase w1)\<rparr>;
                          disclaimer_text =
                            (case re_search_disclaimer ai_message of
                               Some g0 \<Rightarrow> strip (replace ''[END_OF_PLAN]'' [] g0)
                             | None \<Rightarrow> [])
                      in reply_text uid
                           (strip (plan @ [CHR 0x0A, CHR 0x0A] @ disclaimer_text)) w2))
         else reply_text uid ai_message w1)"

text \<open>
  The handler for one message of user \<open>uid\<close>. \<open>response\<close> is what the model returns
  to what it is sent in this turn, \<open>None\<close> where the call raises; the handler then
  apologises.
\<close>

definition main_chat_handler ::
  "(nat \<Rightarrow> bool) \<Rightarrow> timestamp \<Rightarrow> string option \<Rightarrow> int \<Rightarrow> string \<Rightarrow> world \<Rightarrow> world" where
  "main_chat_handler raises now_iso response uid user_message w =
     (if \<not> model w then reply_text uid ''AI brain is not configured. Contact admin.'' w
      else if supabase w = None then
        reply_text uid ''Database is not connected. Contact admin.'' w
      else
        (let w1 = w\<lparr>supabase := log_conversation raises uid ''user'' user_message (supabase w)\<rparr>;
             w2 = send_to_model raises uid user_message w1
         in case response of
              None \<Rightarrow>
                reply_text uid
                  ''I'm sorry, I had trouble processing that. Please try again.'' w2
            | Some ai_message \<Rightarrow> process_reply raises now_iso uid ai_message w2))"

text \<open>\<open>FouserBot.reset_chat\<close>: \<open>context.user_data\<close> is the dict of the invoking user.\<close>

definition reset_chat :: "int \<Rightarrow> world \<Rightarrow> world" where
  "reset_chat uid w =
     reply_text uid ''I've cleared our conversation history. We can start fresh!''
       (w\<lparr>user_data := (user_data w)(uid := [])\<rparr>)"

section \<open>Inputs for the worked instances\<close>

text \<open>
  A store with one user, who has two open plans and a closed one, and an open plan of
  another user; a store with nothing in it; a state of the bot on each; a store whose
  requests never raise; and a reply of the model in the format that its instructions
  ask for.
\<close>

definition never :: "nat \<Rightarrow> bool" where
  "never n = False"

definition db_empty :: db where
  "db_empty = \<lparr>users = [], plan_history = [], conversation_history = [], requests = 0\<rparr>"

definition db_sam :: db where
  "db_sam =
     \<lparr>users = [[(''user_id'', JInt 42), (''name'', JString ''Sam'')]],
      plan_history =
        [\<lparr>user_id = 42, plan_text = ''old plan'', profile_json = [(''name'', JString ''Sam'')],
          start_date = 3, end_date = None\<rparr>,
         \<lparr>user_id = 7, plan_text = ''plan of Kim'', profile_json = [(''name'', JString ''Kim'')],
          start_date = 4, end_date = None\<rparr>,
         \<lparr>user_id = 42, plan_text = ''newer plan'', profile_json = [(''name'', JString ''Sam'')],
          start_date = 5, end_date = None\<rparr>,
         \<lparr>user_id = 42, plan_text = ''first plan'', profile_json = [(''name'', JString ''Sam'')],
          start_date = 1, end_date = Some 2\<rparr>],
      conversation_history = [],
      requests = 0\<rparr>"

definition world_on :: "db \<Rightarrow> world" where
  "world_on d = \<lparr>model = True, supabase = Some d, user_data = (\<lambda>u. []), sent = []\<rparr>"

definition profile_sam :: dict where
  "profile_sam = [(''name'', JString ''Sam''), (''age'', JInt 30), (''weight'', JInt 70)]"

definition reply_sam :: string where
  "reply_sam =
     ''[USER_DATA_JSON] {\"name\": \"Sam\", \"age\": 30, \"weight\": 70}\<newline>'' @
     ''1. Run\<newline>2. Rest\<newline>Please consult a doctor.\<newline>[END_OF_PLAN]''"

text \<open>
  Three more replies: one with a profile block and no completion marker, one whose
  block does not decode, one whose block has a key outside the usual profile.
\<close>

definition reply_without_marker :: string where
  "reply_without_marker =
     ''[USER_DATA_JSON] {\"name\": \"Sam\", \"age\": 30, \"weight\": 70}\<newline>1. Run''"




section \<open>Properties of the store operations\<close>

lemma save_all_requests_succeed:
  assumes "profile \<noteq> []"
    and "\<not> raises (requests d)"
    and "\<not> raises (Suc (requests d))"
    and "\<not> raises (Suc (Suc (requests d)))"
  shows "save_new_plan_and_profile raises now_iso uid profile plan (Some d) =
    Some (d\<lparr>users := upsert_user (AList.update ''user_id'' (JInt uid) profile) (users d),
            plan_history := close_active uid now_iso (plan_history d) @
              [\<lparr>user_id = uid, plan_text = plan, profile_json = profile,
                start_date = now_iso, end_date = None\<rparr>],
            requests := requests d + 3\<rparr>)"
  using assms by (simp add: save_new_plan_and_profile_def execute_def)

lemma filter_close_active: "filter (is_active uid) (close_active uid now_iso rows) = []"
  by (induction rows) (simp_all add: close_active_def is_active_def)

lemma length_close_active: "length (close_active uid now_iso rows) = length rows"
  by (simp add: close_active_def)

lemma nth_close_active:
  "i < length rows \<Longrightarrow> is_active uid (rows ! i) \<Longrightarrow>
     close_active uid now_iso rows ! i = (rows ! i)\<lparr>end_date := Some now_iso\<rparr>"
  by (simp add: close_active_def)

lemma map_of_update_user_id:
  "map_of (AList.update ''user_id'' (JInt uid) profile) k =
     (if k = ''user_id'' then Some (JInt uid) else map_of profile k)"
  by (simp add: update_conv')

lemma upsert_user_fresh:
  "select_user uid rows = [] \<Longrightarrow> map_of row ''user_id'' = Some (JInt uid) \<Longrightarrow>
     upsert_user row rows = rows @ [row]"
  by (auto simp: upsert_user_def select_user_def list_ex_iff filter_empty_conv)

lemma select_active_plan_latest:
  assumes "filter (is_active uid) rows \<noteq> []"
  shows "\<exists>r. select_active_plan uid rows = [r] \<and> r \<in> set rows \<and> is_active uid r \<and>
           (\<forall>r' \<in> set rows. is_active uid r' \<longrightarrow> start_date r' \<le> start_date r)"
proof -
  let ?xs = "filter (is_active uid) rows"
  let ?ys = "sort_key (\<lambda>r. - start_date r) ?xs"
  have ne: "?ys \<noteq> []" using assms by (metis length_sort list.size(3) length_0_conv)
  then obtain r rest where ys: "?ys = r # rest" by (cases ?ys) auto
  have "set ?ys = set ?xs" by simp
  with ys have rin: "r \<in> set ?xs" by (metis list.set_intros(1))
  have "sorted (map (\<lambda>r. - start_date r) ?ys)" by (rule sorted_sort_key)
  with ys have "\<forall>y \<in> set ?ys. - start_date r \<le> - start_date y" by auto
  then have "\<forall>r' \<in> set ?xs. start_date r' \<le> start_date r" by simp
  moreover have "select_active_plan uid rows = [r]"
    by (simp add: select_active_plan_def ys)
  ultimately show ?thesis using rin by auto
qed

lemma log_conversation_tables:
  "\<exists>d'. log_conversation raises uid who message (Some d) = Some d' \<and>
         users d' = users d \<and> plan_history d' = plan_history d"
  by (simp add: log_conversation_def execute_def)

lemma load_profile_tables:
  "\<exists>d'. snd (load_profile raises uid (Some d)) = Some d' \<and>
         users d' = users d \<and> plan_history d' = plan_history d"
  by (simp add: load_profile_def execute_def split: list.split)

section \<open>Properties of the handler's parts\<close>

lemma send_to_model_tables:
  assumes "supabase w = Some d"
  shows "\<exists>d'. supabase (send_to_model raises uid user_message w) = Some d' \<and>
           users d' = users d \<and> plan_history d' = plan_history d"
proof (cases "map_of (user_data w uid) ''chat_session''")
  case None
  obtain d' where "snd (load_profile raises uid (Some d)) = Some d'"
    "users d' = users d" "plan_history d' = plan_history d"
    using load_profile_tables by blast
  then show ?thesis using None assms
    by (simp add: send_to_model_def split: prod.split) (metis snd_conv)
next
  case (Some cs)
  then show ?thesis using assms by (simp add: send_to_model_def)
qed

lemma send_to_model_sent: "sent (send_to_model raises uid user_message w) = sent w"
  by (simp add: send_to_model_def split: option.split prod.split)

lemma process_reply_plain:
  assumes "\<not> contains ''[END_OF_PLAN]'' ai_message"
  shows "process_reply raises now_iso uid ai_message w =
     reply_text uid ai_message
       (w\<lparr>supabase := log_conversation raises uid ''ai'' ai_message (supabase w)\<rparr>)"
  using assms by (simp add: process_reply_def)


text \<open>
  With the model and the store in place, a message that the model answers reaches
  \<open>process_reply\<close> with the two tables of plans and profiles as they were and nothing
  sent yet.
\<close>

lemma handler_running:
  assumes "model w" and "supabase w = Some d"
  shows "\<exists>w2 d2. main_chat_handler raises now_iso (Some ai_message) uid user_message w =
            process_reply raises now_iso uid ai_message w2 \<and>
          supabase w2 = Some d2 \<and> users d2 = users d \<and> plan_history d2 = plan_history d \<and>
          sent w2 = sent w"
proof -
  obtain d1 where d1: "log_conversation raises uid ''user'' user_message (Some d) = Some d1"
    "users d1 = users d" "plan_history d1 = plan_history d"
    using log_conversation_tables by blast
  let ?w1 = "w\<lparr>supabase := Some d1\<rparr>"
  have "supabase ?w1 = Some d1" by simp
  from send_to_model_tables [OF this]
  obtain d2 where d2: "supabase (send_to_model raises uid user_message ?w1) = Some d2"
    "users d2 = users d1" "plan_history d2 = plan_history d1"
    by blast
  have "main_chat_handler raises now_iso (Some ai_message) uid user_message w =
      process_reply raises now_iso uid ai_message (send_to_model raises uid user_message ?w1)"
    using assms d1 by (simp add: main_chat_handler_def)
  moreover have "sent (send_to_model raises uid user_message ?w1) = sent w"
    by (simp add: send_to_model_sent)
  ultimately show ?thesis using d1 d2 by auto
qed

section \<open>Plan versioning\<close>

text \<open>
  C1. A call of \<open>save_new_plan_and_profile\<close> that comes from a reply with the
  completion marker and a profile block has a non-empty profile. When none of its three
  requests raises, the user's open plan records afterwards are exactly the new record,
  whose snapshot is the profile and whose start is the clock reading of the call, and
  every record of the user that was open before has that clock reading as its end.
\<close>

theorem commit_one_active_plan:
  assumes "profile \<noteq> []"
    and "\<not> raises (requests d)"
    and "\<not> raises (Suc (requests d))"
    and "\<not> raises (Suc (Suc (requests d)))"
  shows "\<exists>d'. save_new_plan_and_profile raises now_iso uid profile plan (Some d) = Some d' \<and>
           filter (is_active uid) (plan_history d') =
             [\<lparr>user_id = uid, plan_text = plan, profile_json = profile,
               start_date = now_iso, end_date = None\<rparr>] \<and>
           (\<forall>i < length (plan_history d). is_active uid (plan_history d ! i) \<longrightarrow>
              plan_history d' ! i = (plan_history d ! i)\<lparr>end_date := Some now_iso\<rparr>)"
  using assms
  by (simp add: save_all_requests_succeed filter_close_active is_active_def nth_append
      length_close_active nth_close_active)

theorem commit_one_active_plan_witness:
  "profile_sam \<noteq> [] \<and>
   \<not> never (requests db_sam) \<and>
   \<not> never (Suc (requests db_sam)) \<and>
   \<not> never (Suc (Suc (requests db_sam))) \<and>
   (\<exists>d'. save_new_plan_and_profile never 9 42 profile_sam ''1. Run'' (Some db_sam) = Some d' \<and>
      filter (is_active 42) (plan_history d') =
        [\<lparr>user_id = 42, plan_text = ''1. Run'', profile_json = profile_sam,
          start_date = 9, end_date = None\<rparr>] \<and>
      plan_history d' ! 0 = (plan_history db_sam ! 0)\<lparr>end_date := Some 9\<rparr> \<and>
      plan_history d' ! 2 = (plan_history db_sam ! 2)\<lparr>end_date := Some 9\<rparr>)"
proof -
  have h: "profile_sam \<noteq> []" "\<not> never (requests db_sam)" "\<not> never (Suc (requests db_sam))"
    "\<not> never (Suc (Suc (requests db_sam)))"
    by (simp_all add: profile_sam_def never_def)
  from commit_one_active_plan [OF h, of 9 42 "''1. Run''"]
  obtain d' where d':
    "save_new_plan_and_profile never 9 42 profile_sam ''1. Run'' (Some db_sam) = Some d'"
    "filter (is_active 42) (plan_history d') =
        [\<lparr>user_id = 42, plan_text = ''1. Run'', profile_json = profile_sam,
          start_date = 9, end_date = None\<rparr>]"
    "\<forall>i < length (plan_history db_sam). is_active 42 (plan_history db_sam ! i) \<longrightarrow>
              plan_history d' ! i = (plan_history db_sam ! i)\<lparr>end_date := Some 9\<rparr>"
    by blast
  have "plan_history d' ! 0 = (plan_history db_sam ! 0)\<lparr>end_date := Some 9\<rparr>"
    using d'(3) by (simp add: db_sam_def is_active_def)
  moreover have "plan_history d' ! 2 = (plan_history db_sam ! 2)\<lparr>end_date := Some 9\<rparr>"
    using d'(3) by (simp add: db_sam_def is_active_def)
  ultimately show ?thesis using h d'(1,2) by simp
qed

text \<open>
  C5, as the code has it. \<open>save_new_plan_and_profile\<close> returns at once on an empty
  profile: called twice with one on a store without plans, it leaves no open record.
\<close>

theorem commit_twice_empty_profile_counterexample:
  "save_new_plan_and_profile never 2 42 [] ''1. Run''
     (save_new_plan_and_profile never 1 42 [] ''1. Run'' (Some db_empty)) = Some db_empty \<and>
   filter (is_active 42) (plan_history db_empty) = []"
  by (simp add: save_new_plan_and_profile_def db_empty_def)

text \<open>
  C5, amended. Two calls in sequence with the same user, the same non-empty profile and
  the same plan text, none of whose six requests raises, leave exactly one open record
  for the user, the one of the second call; the record of the first call stands where
  it was appended, closed at the clock reading of the second call.
\<close>

theorem commit_twice_one_active_plan:
  assumes "profile \<noteq> []"
    and "\<forall>k < 6. \<not> raises (requests d + k)"
  shows "\<exists>d1 d2.
           save_new_plan_and_profile raises now1 uid profile plan (Some d) = Some d1 \<and>
           save_new_plan_and_profile raises now2 uid profile plan (Some d1) = Some d2 \<and>
           filter (is_active uid) (plan_history d2) =
             [\<lparr>user_id = uid, plan_text = plan, profile_json = profile,
               start_date = now2, end_date = None\<rparr>] \<and>
           plan_history d2 ! length (plan_history d) =
             \<lparr>user_id = uid, plan_text = plan, profile_json = profile,
               start_date = now1, end_date = Some now2\<rparr>"
proof -
  let ?new1 = "\<lparr>user_id = uid, plan_text = plan, profile_json = profile,
                start_date = now1, end_date = None\<rparr>"
  let ?d1 = "d\<lparr>users := upsert_user (AList.update ''user_id'' (JInt uid) profile) (users d),
            plan_history := close_active uid now1 (plan_history d) @ [?new1],
            requests := requests d + 3\<rparr>"
  have r: "\<not> raises (requests d + k)" if "k < 6" for k
    using assms(2) that by simp
  have "\<not> raises (requests d)" "\<not> raises (Suc (requests d))"
    "\<not> raises (Suc (Suc (requests d)))"
    using r [of 0] r [of 1] r [of 2] by simp_all
  then have 1: "save_new_plan_and_profile raises now1 uid profile plan (Some d) = Some ?d1"
    using assms(1) by (simp add: save_all_requests_succeed)
  have "\<not> raises (requests ?d1)" "\<not> raises (Suc (requests ?d1))"
    "\<not> raises (Suc (Suc (requests ?d1)))"
    using r [of 3] r [of 4] r [of 5] by (simp_all add: eval_nat_numeral)
  from save_all_requests_succeed [OF assms(1) this]
  obtain d2 where 2: "save_new_plan_and_profile raises now2 uid profile plan (Some ?d1) = Some d2"
    and 3: "plan_history d2 = close_active uid now2 (plan_history ?d1) @
       [\<lparr>user_id = uid, plan_text = plan, profile_json = profile,
                start_date = now2, end_date = None\<rparr>]"
    by simp
  have "filter (is_active uid) (plan_history d2) =
             [\<lparr>user_id = uid, plan_text = plan, profile_json = profile,
               start_date = now2, end_date = None\<rparr>]"
    by (simp add: 3 filter_close_active) (simp add: is_active_def)
  moreover have "plan_history d2 ! length (plan_history d) =
             \<lparr>user_id = uid, plan_text = plan, profile_json = profile,
               start_date = now1, end_date = Some now2\<rparr>"
    by (simp add: 3 nth_append length_close_active close_active_def is_active_def)
  ultimately show ?thesis using 1 2 by simp
qed

theorem commit_twice_one_active_plan_witness:
  "profile_sam \<noteq> [] \<and>
   \<not> never (requests db_sam + 0) \<and> \<not> never (requests db_sam + 5) \<and>
   (\<exists>d1 d2.
      save_new_plan_and_profile never 8 42 profile_sam ''1. Run'' (Some db_sam) = Some d1 \<and>
      save_new_plan_and_profile never 9 42 profile_sam ''1. Run'' (Some d1) = Some d2 \<and>
      filter (is_active 42) (plan_history d2) =
        [\<lparr>user_id = 42, plan_text = ''1. Run'', profile_json = profile_sam,
          start_date = 9, end_date = None\<rparr>] \<and>
      plan_history d2 ! 4 =
        \<lparr>user_id = 42, plan_text = ''1. Run'', profile_json = profile_sam,
          start_date = 8, end_date = Some 9\<rparr>)"
proof -
  have h: "profile_sam \<noteq> []" "\<forall>k < 6. \<not> never (requests db_sam + k)"
    by (simp_all add: profile_sam_def never_def)
  have w: "\<not> never (requests db_sam + 0)" "\<not> never (requests db_sam + 5)"
    by (simp_all add: never_def)
  have "length (plan_history db_sam) = 4"
    by (simp add: db_sam_def)
  with commit_twice_one_active_plan [OF h, of 8 42 "''1. Run''" 9] h(1) w show ?thesis
    by simp
qed

text \<open>
  C10. With a non-empty profile and no raising request, the row given to the upsert is
  the profile with \<open>user_id\<close> set to the caller's user id, whatever the profile had
  under that key, and with every other key as in the profile; for a user without a row
  it is the row stored. The snapshot of the new plan record is the profile as it was
  passed, without the change made to the copy.
\<close>

theorem commit_upserts_profile_with_user_id:
  assumes "profile \<noteq> []"
    and "\<not> raises (requests d)"
    and "\<not> raises (Suc (requests d))"
    and "\<not> raises (Suc (Suc (requests d)))"
  shows "\<exists>d'. save_new_plan_and_profile raises now_iso uid profile plan (Some d) = Some d' \<and>
           users d' = upsert_user (AList.update ''user_id'' (JInt uid) profile) (users d) \<and>
           (\<forall>k. map_of (AList.update ''user_id'' (JInt uid) profile) k =
                  (if k = ''user_id'' then Some (JInt uid) else map_of profile k)) \<and>
           (select_user uid (users d) = [] \<longrightarrow>
              users d' = users d @ [AList.update ''user_id'' (JInt uid) profile]) \<and>
           profile_json (last (plan_history d')) = profile"
  using assms
  by (simp add: save_all_requests_succeed map_of_update_user_id upsert_user_fresh)

theorem commit_upserts_profile_with_user_id_witness:
  "[(''user_id'', JInt 1), (''name'', JString ''Sam'')] \<noteq> [] \<and>
   \<not> never (requests db_empty) \<and>
   \<not> never (Suc (requests db_empty)) \<and>
   \<not> never (Suc (Suc (requests db_empty))) \<and>
   select_user 42 (users db_empty) = [] \<and>
   (\<exists>d'. save_new_plan_and_profile never 9 42
            [(''user_id'', JInt 1), (''name'', JString ''Sam'')] ''1. Run'' (Some db_empty) =
          Some d' \<and>
      users d' = [[(''user_id'', JInt 42), (''name'', JString ''Sam'')]] \<and>
      profile_json (last (plan_history d')) =
        [(''user_id'', JInt 1), (''name'', JString ''Sam'')])"
proof -
  have h: "[(''user_id'', JInt 1), (''name'', JString ''Sam'')] \<noteq> []"
    "\<not> never (requests db_empty)" "\<not> never (Suc (requests db_empty))"
    "\<not> never (Suc (Suc (requests db_empty)))"
    by (simp_all add: never_def)
  have e: "select_user 42 (users db_empty) = []"
    by (simp add: select_user_def db_empty_def)
  from commit_upserts_profile_with_user_id [OF h, of 9 42 "''1. Run''"] e h show ?thesis
    by (auto simp: db_empty_def)
qed

text \<open>
  C7. When a user with a profile row has more than one open plan record and the two
  requests of the profile load do not raise, the lookup returns one record, which is an
  open record of the user with a start no earlier than that of any other, and the load
  gives that record's text as the last plan.
\<close>

theorem load_profile_latest_active_plan:
  assumes "1 < length (filter (is_active uid) (plan_history d))"
    and "select_user uid (users d) = profile # others"
    and "\<not> raises (requests d)"
    and "\<not> raises (Suc (requests d))"
  shows "\<exists>r. r \<in> set (plan_history d) \<and> is_active uid r \<and>
           (\<forall>r' \<in> set (plan_history d). is_active uid r' \<longrightarrow> start_date r' \<le> start_date r) \<and>
           select_active_plan uid (plan_history d) = [r] \<and>
           fst (load_profile raises uid (Some d)) = Some (profile, plan_text r)"
proof -
  from assms(1) have "filter (is_active uid) (plan_history d) \<noteq> []" by auto
  from select_active_plan_latest [OF this] obtain r where
    r: "select_active_plan uid (plan_history d) = [r]" "r \<in> set (plan_history d)" "is_active uid r"
       "\<forall>r' \<in> set (plan_history d). is_active uid r' \<longrightarrow> start_date r' \<le> start_date r"
    by blast
  have "fst (load_profile raises uid (Some d)) = Some (profile, plan_text r)"
    using assms(2-4) r(1) by (simp add: load_profile_def execute_def)
  with r show ?thesis by blast
qed

theorem load_profile_latest_active_plan_witness:
  "1 < length (filter (is_active 42) (plan_history db_sam)) \<and>
   select_user 42 (users db_sam) = [(''user_id'', JInt 42), (''name'', JString ''Sam'')] # [] \<and>
   \<not> never (requests db_sam) \<and>
   \<not> never (Suc (requests db_sam)) \<and>
   select_active_plan 42 (plan_history db_sam) =
     [\<lparr>user_id = 42, plan_text = ''newer plan'', profile_json = [(''name'', JString ''Sam'')],
       start_date = 5, end_date = None\<rparr>] \<and>
   fst (load_profile never 42 (Some db_sam)) =
     Some ([(''user_id'', JInt 42), (''name'', JString ''Sam'')], ''newer plan'')"
proof -
  have h: "1 < length (filter (is_active 42) (plan_history db_sam))"
    "select_user 42 (users db_sam) = [(''user_id'', JInt 42), (''name'', JString ''Sam'')] # []"
    "\<not> never (requests db_sam)" "\<not> never (Suc (requests db_sam))"
    by (simp_all add: db_sam_def is_active_def select_user_def never_def)
  have s: "select_active_plan 42 (plan_history db_sam) =
     [\<lparr>user_id = 42, plan_text = ''newer plan'', profile_json = [(''name'', JString ''Sam'')],
       start_date = 5, end_date = None\<rparr>]"
    by (simp add: select_active_plan_def db_sam_def is_active_def)
  from load_profile_latest_active_plan [OF h] s h show ?thesis
    by auto
qed

section \<open>The reset command\<close>

text \<open>
  C9. After a reset the invoking user has no session handle, every other user's
  \<open>user_data\<close> is as before, the store is as before, and the store plays no part in
  the result: a reset on another store gives the same state but for that store.
\<close>

theorem reset_clears_own_session_only:
  "map_of (user_data (reset_chat uid w) uid) ''chat_session'' = None \<and>
   (\<forall>u. u \<noteq> uid \<longrightarrow> user_data (reset_chat uid w) u = user_data w u) \<and>
   supabase (reset_chat uid w) = supabase w \<and>
   (\<forall>sb. reset_chat uid (w\<lparr>supabase := sb\<rparr>) = (reset_chat uid w)\<lparr>supabase := sb\<rparr>)"
  by (simp add: reset_chat_def reply_text_def)

theorem reset_clears_own_session_only_witness:
  "map_of (user_data (reset_chat 42 (send_to_model never 7 ''hello''
      (send_to_model never 42 ''hi'' (world_on db_sam)))) 42) ''chat_session'' = None \<and>
   (7::int) \<noteq> 42 \<and>
   map_of (user_data (reset_chat 42 (send_to_model never 7 ''hello''
      (send_to_model never 42 ''hi'' (world_on db_sam)))) 7) ''chat_session'' =
     Some [New_user_note ''hello''] \<and>
   map_of (user_data (send_to_model never 7 ''hello''
      (send_to_model never 42 ''hi'' (world_on db_sam))) 42) ''chat_session'' =
     Some [Returning_user_note [(''user_id'', JInt 42), (''name'', JString ''Sam'')]
             ''newer plan'' (JString ''Sam'') ''hi'']"
proof -
  let ?w = "send_to_model never 7 ''hello'' (send_to_model never 42 ''hi'' (world_on db_sam))"
  have a: "map_of (user_data ?w 7) ''chat_session'' = Some [New_user_note ''hello'']"
    by (simp add: send_to_model_def world_on_def load_profile_def execute_def never_def
        select_user_def db_sam_def)
  have b: "map_of (user_data ?w 42) ''chat_session'' =
     Some [Returning_user_note [(''user_id'', JInt 42), (''name'', JString ''Sam'')]
             ''newer plan'' (JString ''Sam'') ''hi'']"
    by (simp add: send_to_model_def world_on_def load_profile_def execute_def never_def
        select_user_def db_sam_def select_active_plan_def is_active_def)
  from reset_clears_own_session_only [of 42 ?w] a b show ?thesis
    by simp
qed

section \<open>Persistence is gated by the completion marker and the profile block\<close>

text \<open>
  C2. A reply without the completion marker leaves the tables of profiles and of plans
  as they were, whatever else the reply holds and whether or not a request raises.
\<close>

theorem no_marker_no_persistence:
  assumes "\<not> contains ''[END_OF_PLAN]'' ai_message"
  shows "map_option users
           (supabase (main_chat_handler raises now_iso (Some ai_message) uid user_message w)) =
         map_option users (supabase w) \<and>
         map_option plan_history
           (supabase (main_chat_handler raises now_iso (Some ai_message) uid user_message w)) =
         map_option plan_history (supabase w)"
proof (cases "model w \<and> supabase w \<noteq> None")
  case False
  then show ?thesis by (auto simp: main_chat_handler_def reply_text_def)
next
  case True
  then obtain d where d: "model w" "supabase w = Some d" by auto
  from handler_running [OF this] obtain w2 d2 where
    h: "main_chat_handler raises now_iso (Some ai_message) uid user_message w =
            process_reply raises now_iso uid ai_message w2"
      "supabase w2 = Some d2" "users d2 = users d" "plan_history d2 = plan_history d"
    by blast
  obtain d3 where "log_conversation raises uid ''ai'' ai_message (Some d2) = Some d3"
    "users d3 = users d2" "plan_history d3 = plan_history d2"
    using log_conversation_tables by blast
  then show ?thesis
    using h d by (simp add: process_reply_plain [OF assms] reply_text_def)
qed

theorem no_marker_no_persistence_witness:
  "\<not> contains ''[END_OF_PLAN]'' reply_without_marker \<and>
   extract_profile_json reply_without_marker = Some profile_sam \<and>
   map_option users
     (supabase (main_chat_handler never 9 (Some reply_without_marker) 42 ''hi'' (world_on db_sam))) =
     Some (users db_sam) \<and>
   map_option plan_history
     (supabase (main_chat_handler never 9 (Some reply_without_marker) 42 ''hi'' (world_on db_sam))) =
     Some (plan_history db_sam)"
proof -
  have h: "\<not> contains ''[END_OF_PLAN]'' reply_without_marker"
    by code_simp
  have p: "extract_profile_json reply_without_marker = Some profile_sam"
    by code_simp
  from no_marker_no_persistence [OF h, of never 9 42 "''hi''" "world_on db_sam"] h p
  show ?thesis by (simp add: world_on_def)
qed







section \<open>Properties of the response parser\<close>






























end
